theory Spec2Isabelle
  imports Main "HOL-Library.Multiset"
begin

section \<open>Data model of the quiz component (src/app/page.tsx)\<close>

text \<open>
  The component \<open>Game\<close> keeps its whole state in React state variables (lines 23-36).
  Three things live outside that state and are touched by the handlers: the imported
  question bank \<open>questionsData\<close> (a mutable module object), the browser's
  \<open>localStorage\<close>, and the callbacks handed to \<open>setTimeout\<close> that have not fired yet.
  They are collected in the record \<open>World\<close>.
\<close>

record Question =
  qtype :: string
  content :: string
  options :: "string list option"
  answer :: string
  hint :: string

record LeaderboardEntry =
  entry_name :: string
  entry_score :: int

datatype GameState = Start | Playing | Won | Lost

text \<open>The state variables of lines 23-36, under the names of the source.\<close>

record Game =
  userName :: string
  category :: string
  gameState :: GameState
  currentQuestions :: "Question list"
  currentQuestionIndex :: "nat option"
  score :: int
  highestScore :: int
  leaderboard :: "LeaderboardEntry list"
  selectedOption :: "string option"
  userAnswer :: string
  timer :: int
  isPaused :: bool
  showHint :: bool
  showValidationMessage :: bool

text \<open>
  A value kept by \<open>localStorage\<close>: the JSON text of a list of entries, or a text that
  \<open>JSON.parse\<close> rejects. \<open>JSON.stringify\<close> followed by \<open>JSON.parse\<close> gives a list of
  \<open>{name, score}\<close> objects back unchanged, so the text is identified with the list.
  \<open>available\<close> says whether \<open>setItem\<close> succeeds: where it is false every access throws.
\<close>

datatype stored = Entries "LeaderboardEntry list" | Malformed

record localStorage =
  available :: bool
  items :: "string \<rightharpoonup> stored"

text \<open>
  The callback of \<open>setTimeout\<close> in \<open>handleAnswer\<close> (lines 94-110) is a closure: it keeps
  \<open>correct\<close>, the index of the question that was answered, and, through
  \<open>currentQuestions\<close> and \<open>handleGameOver\<close>, the state variables of the render in which
  the answer was given (\<open>env\<close>).
\<close>

record Reveal =
  correct :: bool
  index :: nat
  env :: Game

record World =
  ui :: Game
  questionsData :: "string \<rightharpoonup> Question list"
  storage :: localStorage
  timeouts :: "Reveal list"

datatype error = TypeError

section \<open>Library functions of the platform\<close>

text \<open>
  \<open>String.prototype.toLowerCase\<close>, restricted to ASCII: the letters \<open>A\<close> to \<open>Z\<close> are
  lowered and every other character is kept. The source also lowers the cased letters
  beyond ASCII, which the 8-bit characters of \<open>string\<close> do not represent; answers with
  such letters are outside this model.
\<close>

definition toLowerChar :: "char \<Rightarrow> char" where
  "toLowerChar c =
     (let n = (of_char c :: nat) in if 65 \<le> n \<and> n \<le> 90 then char_of (n + 32) else c)"

definition toLowerCase :: "string \<Rightarrow> string" where
  "toLowerCase s = map toLowerChar s"

text \<open>
  \<open>Array.prototype.sort\<close> with a comparator: a stable sort, an element \<open>x\<close> staying in
  front of \<open>y\<close> when \<open>cmp x y \<le> 0\<close>.
\<close>

fun insert_by :: "('a \<Rightarrow> 'a \<Rightarrow> int) \<Rightarrow> 'a \<Rightarrow> 'a list \<Rightarrow> 'a list" where
  "insert_by cmp x [] = [x]"
| "insert_by cmp x (y # ys) = (if cmp x y \<le> 0 then x # y # ys else y # insert_by cmp x ys)"

definition js_sort :: "('a \<Rightarrow> 'a \<Rightarrow> int) \<Rightarrow> 'a list \<Rightarrow> 'a list" where
  "js_sort cmp xs = foldr (insert_by cmp) xs []"

text \<open>The comparator of line 149, \<open>(a, b) => b.score - a.score\<close>.\<close>

definition by_score_desc :: "LeaderboardEntry \<Rightarrow> LeaderboardEntry \<Rightarrow> int" where
  "by_score_desc a b = entry_score b - entry_score a"

section \<open>The helpers and effects of the component\<close>

text \<open>
  \<open>isLocalStorageAvailable\<close> (lines 39-48) writes and removes the key
  \<open>localStorageTest\<close>; it answers false when that throws.
\<close>

definition isLocalStorageAvailable :: "localStorage \<Rightarrow> bool \<times> localStorage" where
  "isLocalStorageAvailable ls =
     (if available ls then (True, ls\<lparr>items := (items ls)(''localStorageTest'' := None)\<rparr>)
      else (False, ls))"

definition leaderboard_key :: "string \<Rightarrow> string" where
  "leaderboard_key c = ''leaderboard_'' @ c"

text \<open>
  \<open>handleGameOver\<close> (lines 145-158). It reads \<open>leaderboard\<close>, \<open>userName\<close>, \<open>score\<close> and
  \<open>category\<close> from the render that created the closure (\<open>e\<close>), writes the store and
  calls \<open>setLeaderboard\<close>.
\<close>

definition handleGameOver :: "Game \<Rightarrow> World \<Rightarrow> World" where
  "handleGameOver e w =
     (case isLocalStorageAvailable (storage w) of
        (True, ls) \<Rightarrow>
          (let newLeaderboard =
                 js_sort by_score_desc
                   (leaderboard e @ [\<lparr>entry_name = userName e, entry_score = score e\<rparr>])
           in w\<lparr>storage := ls\<lparr>items := (items ls)(leaderboard_key (category e) \<mapsto>
                                        Entries newLeaderboard)\<rparr>,
                ui := (ui w)\<lparr>leaderboard := newLeaderboard\<rparr>\<rparr>)
      | (False, ls) \<Rightarrow> w\<lparr>storage := ls\<rparr>)"

text \<open>\<open>Math.max(...scores)\<close> of a list that is not empty.\<close>

definition maxScore :: "LeaderboardEntry list \<Rightarrow> int" where
  "maxScore es = (case es of [] \<Rightarrow> 0 | x # xs \<Rightarrow> fold max (map entry_score xs) (entry_score x))"

text \<open>
  The effect of lines 50-70, run when \<open>category\<close> has changed: it loads the leaderboard
  of the category from the store.
\<close>

definition loadLeaderboard :: "World \<Rightarrow> World" where
  "loadLeaderboard w =
     (let c = category (ui w) in
      if c \<noteq> [] \<and> questionsData w c \<noteq> None then
        (case isLocalStorageAvailable (storage w) of
           (True, ls) \<Rightarrow>
             (case (case items ls (leaderboard_key c) of None \<Rightarrow> Entries [] | Some v \<Rightarrow> v) of
                Entries storedScores \<Rightarrow>
                  w\<lparr>storage := ls,
                    ui := (ui w)\<lparr>highestScore := maxScore storedScores,
                                leaderboard := storedScores\<rparr>\<rparr>
              | Malformed \<Rightarrow>
                  w\<lparr>storage := ls, ui := (ui w)\<lparr>highestScore := 0, leaderboard := []\<rparr>\<rparr>)
         | (False, ls) \<Rightarrow>
             w\<lparr>storage := ls, ui := (ui w)\<lparr>highestScore := 0, leaderboard := []\<rparr>\<rparr>)
      else w)"

text \<open>
  The timer effect (lines 72-84), run when \<open>isPaused\<close>, \<open>gameState\<close> or \<open>timer\<close> has
  changed. In its first branch it only installs the interval, which is alive exactly
  while \<open>intervalActive\<close> holds of the last render; the callback of the interval is
  \<open>tick\<close>.
\<close>

definition intervalActive :: "Game \<Rightarrow> bool" where
  "intervalActive g = (\<not> isPaused g \<and> gameState g = Playing \<and> timer g > 0)"

definition timerEffect :: "World \<Rightarrow> World" where
  "timerEffect w =
     (let g = ui w in
      if intervalActive g then w
      else if timer g = 0 then handleGameOver g (w\<lparr>ui := g\<lparr>gameState := Lost\<rparr>\<rparr>)
      else w)"

definition tick :: "World \<Rightarrow> World" where
  "tick w = w\<lparr>ui := (ui w)\<lparr>timer := timer (ui w) - 1\<rparr>\<rparr>"

definition timerDeps :: "Game \<Rightarrow> bool \<times> GameState \<times> int" where
  "timerDeps g = (isPaused g, gameState g, timer g)"

section \<open>The handlers\<close>

text \<open>
  \<open>handleAnswer\<close> (lines 86-111), up to the call of \<open>setTimeout\<close>. Reading
  \<open>currentQuestion.answer\<close> of an index out of range throws a \<open>TypeError\<close> before any
  state is set.
\<close>

definition handleAnswer :: "string \<Rightarrow> World \<Rightarrow> error + World" where
  "handleAnswer selected w =
     (let g = ui w in
      case currentQuestionIndex g of
        None \<Rightarrow> Inr w
      | Some i \<Rightarrow>
          if gameState g \<noteq> Playing then Inr w
          else if i < length (currentQuestions g) then
            (let currentQuestion = currentQuestions g ! i;
                 c = (toLowerCase (answer currentQuestion) = toLowerCase selected)
             in Inr (w\<lparr>ui := g\<lparr>selectedOption := Some selected\<rparr>,
                       timeouts := timeouts w @ [\<lparr>correct = c, index = i, env = g\<rparr>]\<rparr>))
          else Inl TypeError)"

text \<open>
  The callback of lines 94-110, fired one second after the answer. \<open>setScore\<close> is given
  a function, so it increments the score of the moment; everything else comes from the
  closure \<open>r\<close>.
\<close>

definition revealTimeout :: "Reveal \<Rightarrow> World \<Rightarrow> World" where
  "revealTimeout r w =
     (let w1 =
        (if correct r then
           (let g = (ui w)\<lparr>score := score (ui w) + 1\<rparr> in
            if int (index r) = int (length (currentQuestions (env r))) - 1
            then w\<lparr>ui := g\<lparr>gameState := Won\<rparr>\<rparr>
            else w\<lparr>ui := g\<lparr>currentQuestionIndex := Some (index r + 1),
                            selectedOption := None, userAnswer := []\<rparr>\<rparr>)
         else handleGameOver (env r) (w\<lparr>ui := (ui w)\<lparr>gameState := Lost\<rparr>\<rparr>))
      in w1\<lparr>ui := (ui w1)\<lparr>timer := 30\<rparr>\<rparr>)"

text \<open>
  \<open>handleStart\<close> (lines 113-132). \<open>Array.prototype.sort\<close> sorts the array of the question
  bank in place and returns that same array; with the comparator
  \<open>() => Math.random() - 0.5\<close> the outcome is a rearrangement that depends on the random
  draws, given here by the parameter \<open>shuffle\<close>. An unknown category makes
  \<open>questionsData[category]\<close> undefined, the call of \<open>sort\<close> throws, and the \<open>catch\<close>
  only logs.
\<close>

definition handleStart :: "(Question list \<Rightarrow> Question list) \<Rightarrow> World \<Rightarrow> World" where
  "handleStart shuffle w =
     (let g = ui w in
      if userName g = [] \<or> category g = [] then w\<lparr>ui := g\<lparr>showValidationMessage := True\<rparr>\<rparr>
      else
        (case questionsData w (category g) of
           None \<Rightarrow> w
         | Some qs \<Rightarrow>
             (let shuffledQuestions = shuffle qs in
              w\<lparr>questionsData := (questionsData w)(category g \<mapsto> shuffledQuestions),
                ui := g\<lparr>currentQuestions := shuffledQuestions,
                        showValidationMessage := False,
                        gameState := Playing,
                        currentQuestionIndex := Some 0,
                        score := 0,
                        selectedOption := None,
                        userAnswer := [],
                        timer := 30\<rparr>\<rparr>)))"

text \<open>\<open>handlePauseResume\<close> (lines 134-137).\<close>

definition handlePauseResume :: "World \<Rightarrow> World" where
  "handlePauseResume w = w\<lparr>ui := (ui w)\<lparr>isPaused := \<not> isPaused (ui w)\<rparr>\<rparr>"

text \<open>\<open>handleHint\<close> (lines 139-143) and the callback it schedules.\<close>

definition handleHint :: "World \<Rightarrow> World" where
  "handleHint w = w\<lparr>ui := (ui w)\<lparr>showHint := True\<rparr>\<rparr>"

definition hintTimeout :: "World \<Rightarrow> World" where
  "hintTimeout w = w\<lparr>ui := (ui w)\<lparr>showHint := False\<rparr>\<rparr>"

section \<open>Rendering, effects and events\<close>

text \<open>
  While playing, the render reads \<open>currentQuestions[currentQuestionIndex].content\<close>
  (line 239). Where the index is out of range that throws; the component has no error
  boundary, so it is unmounted and nothing runs any more.
\<close>

definition renderThrows :: "Game \<Rightarrow> bool" where
  "renderThrows g =
     (gameState g = Playing \<and>
      (case currentQuestionIndex g of
         None \<Rightarrow> False
       | Some i \<Rightarrow> length (currentQuestions g) \<le> i))"

text \<open>The question on the playing screen (lines 231-296), when that screen is shown.\<close>

definition shownQuestion :: "Game \<Rightarrow> Question option" where
  "shownQuestion g =
     (if gameState g = Playing then
        (case currentQuestionIndex g of
           None \<Rightarrow> None
         | Some i \<Rightarrow> if i < length (currentQuestions g) then Some (currentQuestions g ! i)
                     else None)
      else None)"

text \<open>
  The timer effect sets state itself, and React runs an effect again after every render
  that changed one of its dependencies: \<open>runTimerEffect\<close> runs it until the dependencies
  stay as they are.
\<close>

function runTimerEffect :: "World \<Rightarrow> World" where
  "runTimerEffect w =
     (let w' = timerEffect w in
      if timerDeps (ui w') = timerDeps (ui w) then w' else runTimerEffect w')"
  by pat_completeness auto
termination
  apply (relation "measure (\<lambda>w. if gameState (ui w) = Lost then 0 else 1)")
   apply simp
  apply (auto simp: timerEffect_def timerDeps_def handleGameOver_def
      isLocalStorageAvailable_def Let_def split: if_splits prod.splits)
  done

declare runTimerEffect.simps [simp del]

text \<open>
  What follows a handler that turned the world \<open>prev\<close> into \<open>w\<close>: the render, then the
  effects whose dependencies differ from those of the render before.
\<close>

definition rerender :: "World \<Rightarrow> World \<Rightarrow> World" where
  "rerender prev w =
     (if renderThrows (ui w) then w
      else
        (let w1 = (if category (ui w) \<noteq> category (ui prev) then loadLeaderboard w else w)
         in if timerDeps (ui w1) \<noteq> timerDeps (ui prev) then runTimerEffect w1 else w1))"

text \<open>
  The events the component reacts to: the inputs and buttons of the screen that is
  shown (lines 187-315), the interval of the timer effect and the two kinds of timeout.
  All answer timeouts have the same delay, so they fire in the order of their creation.
\<close>

datatype Event =
    SetUserName string
  | SetCategory string
  | ClickStart
  | ClickOption string
  | TypeAnswer string
  | ClickSubmit
  | ClickPauseResume
  | ClickHint
  | HintTimeout
  | Tick
  | RevealTimeout

text \<open>
  The options of the category selector (lines 208-213): the empty choice and the keys of
  the question bank.
\<close>

definition categoryOffered :: "World \<Rightarrow> string \<Rightarrow> bool" where
  "categoryOffered w c = (if c = [] then True else questionsData w c \<noteq> None)"

definition answered :: "string \<Rightarrow> World \<Rightarrow> World" where
  "answered selected w = (case handleAnswer selected w of Inl _ \<Rightarrow> w | Inr w' \<Rightarrow> w')"

fun handler :: "(Question list \<Rightarrow> Question list) \<Rightarrow> Event \<Rightarrow> World \<Rightarrow> World" where
  "handler sh (SetUserName n) w =
     (if gameState (ui w) = Start then w\<lparr>ui := (ui w)\<lparr>userName := n\<rparr>\<rparr> else w)"
| "handler sh (SetCategory c) w =
     (if gameState (ui w) = Start \<and> categoryOffered w c
      then w\<lparr>ui := (ui w)\<lparr>category := c\<rparr>\<rparr> else w)"
| "handler sh ClickStart w =
     (if gameState (ui w) = Start then handleStart sh w else w)"
| "handler sh (ClickOption opt) w =
     (case shownQuestion (ui w) of
        None \<Rightarrow> w
      | Some q \<Rightarrow>
          if qtype q = ''mcq'' \<and> selectedOption (ui w) = None \<and>
             opt \<in> set (case options q of None \<Rightarrow> [] | Some os \<Rightarrow> os)
          then answered opt w else w)"
| "handler sh (TypeAnswer t) w =
     (case shownQuestion (ui w) of
        None \<Rightarrow> w
      | Some q \<Rightarrow>
          if qtype q = ''fill'' \<or> qtype q = ''riddle''
          then w\<lparr>ui := (ui w)\<lparr>userAnswer := t\<rparr>\<rparr> else w)"
| "handler sh ClickSubmit w =
     (case shownQuestion (ui w) of
        None \<Rightarrow> w
      | Some q \<Rightarrow>
          if qtype q = ''fill'' \<or> qtype q = ''riddle''
          then answered (userAnswer (ui w)) w else w)"
| "handler sh ClickPauseResume w =
     (if shownQuestion (ui w) \<noteq> None then handlePauseResume w else w)"
| "handler sh ClickHint w =
     (if shownQuestion (ui w) \<noteq> None \<and> \<not> showHint (ui w) then handleHint w else w)"
| "handler sh HintTimeout w = hintTimeout w"
| "handler sh Tick w = (if intervalActive (ui w) then tick w else w)"
| "handler sh RevealTimeout w =
     (case timeouts w of
        [] \<Rightarrow> w
      | r # rs \<Rightarrow> revealTimeout r (w\<lparr>timeouts := rs\<rparr>))"

definition step :: "(Question list \<Rightarrow> Question list) \<Rightarrow> World \<Rightarrow> Event \<Rightarrow> World" where
  "step sh w e = (if renderThrows (ui w) then w else rerender w (handler sh e w))"

definition run :: "(Question list \<Rightarrow> Question list) \<Rightarrow> World \<Rightarrow> Event list \<Rightarrow> World" where
  "run sh w es = foldl (step sh) w es"

text \<open>The state of lines 23-36 at the first render, and the world around it.\<close>

definition initGame :: Game where
  "initGame =
     \<lparr>userName = [], category = [], gameState = Start, currentQuestions = [],
      currentQuestionIndex = None, score = 0, highestScore = 0, leaderboard = [],
      selectedOption = None, userAnswer = [], timer = 30, isPaused = False,
      showHint = False, showValidationMessage = False\<rparr>"

definition initWorld :: "(string \<rightharpoonup> Question list) \<Rightarrow> localStorage \<Rightarrow> World" where
  "initWorld qd ls = \<lparr>ui = initGame, questionsData = qd, storage = ls, timeouts = []\<rparr>"

section \<open>Sample banks and sessions\<close>

text \<open>Concrete questions, banks, stores and event sequences on which the model is run.\<close>

definition sun_question :: Question where
  "sun_question =
     \<lparr>qtype = ''fill'', content = ''The star at the centre of the solar system'',
      options = None, answer = ''Sun'', hint = ''It rises in the east''\<rparr>"

definition mars_question :: Question where
  "mars_question =
     \<lparr>qtype = ''riddle'', content = ''The red planet'',
      options = None, answer = ''Mars'', hint = ''Named after the god of war''\<rparr>"

definition moon_question :: Question where
  "moon_question =
     \<lparr>qtype = ''mcq'', content = ''What orbits the Earth?'',
      options = Some [''Venus'', ''Moon''], answer = ''Moon'', hint = ''Look up at night''\<rparr>"

definition text_bank :: "string \<rightharpoonup> Question list" where
  "text_bank = [''science'' \<mapsto> [sun_question, mars_question]]"

definition mcq_bank :: "string \<rightharpoonup> Question list" where
  "mcq_bank = [''science'' \<mapsto> [moon_question]]"

definition empty_store :: localStorage where
  "empty_store = \<lparr>available = True, items = Map.empty\<rparr>"

text \<open>A run of the random comparator that leaves the questions in the order of the bank.\<close>

definition keep_order :: "Question list \<Rightarrow> Question list" where
  "keep_order qs = qs"

definition begin_session :: "Event list" where
  "begin_session = [SetUserName ''bob'', SetCategory ''science'', ClickStart]"

text \<open>
  Three start screens: a category chosen and no name typed, a name typed and no category
  chosen, and both filled in.
\<close>

definition nameless_screen :: World where
  "nameless_screen = run keep_order (initWorld text_bank empty_store) [SetCategory ''science'']"

definition uncategorised_screen :: World where
  "uncategorised_screen = run keep_order (initWorld text_bank empty_store) [SetUserName ''bob'']"

definition ready_screen :: World where
  "ready_screen =
     run keep_order (initWorld text_bank empty_store)
       [SetUserName ''bob'', SetCategory ''science'']"

text \<open>A session paused after one second of play.\<close>

definition paused_world :: World where
  "paused_world =
     run keep_order (initWorld mcq_bank empty_store) (begin_session @ [Tick, ClickPauseResume])"

text \<open>A player with one point and a leaderboard of two earlier entries.\<close>

definition board_game :: Game where
  "board_game =
     initGame\<lparr>userName := ''cat'', category := ''science'', score := 1,
       leaderboard := [\<lparr>entry_name = ''ann'', entry_score = 1\<rparr>,
                       \<lparr>entry_name = ''bob'', entry_score = 3\<rparr>]\<rparr>"

definition board_world :: World where
  "board_world = (initWorld text_bank empty_store)\<lparr>ui := board_game\<rparr>"

text \<open>A later visit of the page, after \<open>board_game\<close> was saved: the category is chosen again.\<close>

definition reloaded_world :: World where
  "reloaded_world =
     (initWorld text_bank (storage (handleGameOver board_game board_world)))
       \<lparr>ui := initGame\<lparr>category := ''science''\<rparr>\<rparr>"

section \<open>Sorting the leaderboard\<close>

lemma insert_by_score_desc:
  "insert_by by_score_desc x ys = insort_key (\<lambda>e. - entry_score e) x ys"
  by (induction ys) (auto simp: by_score_desc_def)

lemma js_sort_by_score_desc:
  "js_sort by_score_desc xs = sort_key (\<lambda>e. - entry_score e) xs"
proof -
  have "insert_by by_score_desc = insort_key (\<lambda>e. - entry_score e)"
    by (intro ext) (rule insert_by_score_desc)
  then show ?thesis by (simp add: js_sort_def sort_key_def)
qed

lemma js_sort_descending:
  "sorted_wrt (\<lambda>a b. entry_score b \<le> entry_score a) (js_sort by_score_desc xs)"
proof -
  have "sorted (map (\<lambda>e. - entry_score e) (sort_key (\<lambda>e. - entry_score e) xs))"
    by (rule sorted_sort_key)
  then show ?thesis
    by (simp add: js_sort_by_score_desc sorted_wrt_map)
qed

lemma js_sort_stable:
  "filter (\<lambda>x. entry_score x = k) (js_sort by_score_desc xs) =
   filter (\<lambda>x. entry_score x = k) xs"
proof -
  have "filter (\<lambda>y. - entry_score y = - k) (sort_key (\<lambda>e. - entry_score e) xs)
          = filter (\<lambda>y. - entry_score y = - k) xs"
    by (rule sort_key_stable)
  then show ?thesis by (simp add: js_sort_by_score_desc)
qed

lemma js_sort_mset: "mset (js_sort by_score_desc xs) = mset xs"
  by (simp add: js_sort_by_score_desc)

section \<open>What the effects leave alone\<close>

lemma handleGameOver_frame:
  "score (ui (handleGameOver e w)) = score (ui w)"
  "currentQuestionIndex (ui (handleGameOver e w)) = currentQuestionIndex (ui w)"
  "timer (ui (handleGameOver e w)) = timer (ui w)"
  "isPaused (ui (handleGameOver e w)) = isPaused (ui w)"
  "gameState (ui (handleGameOver e w)) = gameState (ui w)"
  by (simp_all add: handleGameOver_def isLocalStorageAvailable_def Let_def)

lemma timerEffect_frame:
  "score (ui (timerEffect w)) = score (ui w)"
  "currentQuestionIndex (ui (timerEffect w)) = currentQuestionIndex (ui w)"
  "timer (ui (timerEffect w)) = timer (ui w)"
  "isPaused (ui (timerEffect w)) = isPaused (ui w)"
  by (simp_all add: timerEffect_def handleGameOver_frame Let_def)

lemma timerEffect_gameState:
  "gameState (ui (timerEffect w)) = gameState (ui w) \<or> gameState (ui (timerEffect w)) = Lost"
  by (simp add: timerEffect_def handleGameOver_frame Let_def)

lemma runTimerEffect_unfold:
  "runTimerEffect w =
     (if timerDeps (ui (timerEffect w)) = timerDeps (ui w) then timerEffect w
      else runTimerEffect (timerEffect w))"
  by (subst runTimerEffect.simps) (simp add: Let_def)

lemma runTimerEffect_frame:
  "score (ui (runTimerEffect w)) = score (ui w) \<and>
   currentQuestionIndex (ui (runTimerEffect w)) = currentQuestionIndex (ui w) \<and>
   timer (ui (runTimerEffect w)) = timer (ui w) \<and>
   isPaused (ui (runTimerEffect w)) = isPaused (ui w)"
proof (induction w rule: runTimerEffect.induct)
  case (1 w)
  show ?case
  proof (cases "timerDeps (ui (timerEffect w)) = timerDeps (ui w)")
    case True
    then have "runTimerEffect w = timerEffect w"
      by (subst runTimerEffect_unfold) simp
    then show ?thesis by (simp add: timerEffect_frame)
  next
    case False
    then have "runTimerEffect w = runTimerEffect (timerEffect w)"
      by (subst runTimerEffect_unfold) simp
    with 1 [OF refl False] show ?thesis by (simp add: timerEffect_frame)
  qed
qed

lemma runTimerEffect_gameState:
  "gameState (ui (runTimerEffect w)) = gameState (ui w) \<or>
   gameState (ui (runTimerEffect w)) = Lost"
proof (induction w rule: runTimerEffect.induct)
  case (1 w)
  show ?case
  proof (cases "timerDeps (ui (timerEffect w)) = timerDeps (ui w)")
    case True
    then have "runTimerEffect w = timerEffect w"
      by (subst runTimerEffect_unfold) simp
    then show ?thesis using timerEffect_gameState [of w] by simp
  next
    case False
    then have "runTimerEffect w = runTimerEffect (timerEffect w)"
      by (subst runTimerEffect_unfold) simp
    with 1 [OF refl False] timerEffect_gameState [of w] show ?thesis by auto
  qed
qed

lemma loadLeaderboard_frame:
  "score (ui (loadLeaderboard w)) = score (ui w)"
  "currentQuestionIndex (ui (loadLeaderboard w)) = currentQuestionIndex (ui w)"
  "timer (ui (loadLeaderboard w)) = timer (ui w)"
  "isPaused (ui (loadLeaderboard w)) = isPaused (ui w)"
  "gameState (ui (loadLeaderboard w)) = gameState (ui w)"
  by (simp_all add: loadLeaderboard_def isLocalStorageAvailable_def Let_def
      split: option.splits stored.splits)

lemma rerender_frame:
  "score (ui (rerender p w)) = score (ui w)"
  "currentQuestionIndex (ui (rerender p w)) = currentQuestionIndex (ui w)"
  "timer (ui (rerender p w)) = timer (ui w)"
  "isPaused (ui (rerender p w)) = isPaused (ui w)"
  by (simp_all add: rerender_def Let_def runTimerEffect_frame loadLeaderboard_frame)

lemma rerender_gameState:
  "gameState (ui (rerender p w)) = gameState (ui w) \<or> gameState (ui (rerender p w)) = Lost"
  using runTimerEffect_gameState [of w] runTimerEffect_gameState [of "loadLeaderboard w"]
  by (auto simp: rerender_def Let_def loadLeaderboard_frame)

lemma rerender_same: "rerender w w = w"
  by (simp add: rerender_def)

section \<open>The start screen\<close>

lemma answered_frame:
  "score (ui (answered s w)) = score (ui w)"
  "currentQuestionIndex (ui (answered s w)) = currentQuestionIndex (ui w)"
  "timer (ui (answered s w)) = timer (ui w)"
  "isPaused (ui (answered s w)) = isPaused (ui w)"
  "gameState (ui (answered s w)) = gameState (ui w)"
  by (simp_all add: answered_def handleAnswer_def Let_def split: option.splits)

lemma revealTimeout_isPaused:
  "isPaused (ui (revealTimeout r w)) = isPaused (ui w)"
  by (simp add: revealTimeout_def handleGameOver_frame Let_def)

lemma revealTimeout_not_Start:
  "gameState (ui w) \<noteq> Start \<Longrightarrow> gameState (ui (revealTimeout r w)) \<noteq> Start"
  by (simp add: revealTimeout_def handleGameOver_frame Let_def)

text \<open>Only the pause button changes \<open>isPaused\<close>, and it is shown while playing only.\<close>

lemma handler_isPaused:
  assumes "gameState (ui w) \<noteq> Playing"
  shows "isPaused (ui (handler sh e w)) = isPaused (ui w)"
proof (cases e)
  case ClickStart
  then show ?thesis
    by (simp add: handleStart_def Let_def split: option.splits)
next
  case RevealTimeout
  then show ?thesis
    by (simp add: revealTimeout_isPaused split: list.splits)
qed (use assms in \<open>simp_all add: shownQuestion_def hintTimeout_def tick_def intervalActive_def\<close>)

text \<open>No handler and no effect sets \<open>gameState\<close> back to \<open>start\<close>.\<close>

lemma handler_not_Start:
  assumes "gameState (ui w) \<noteq> Start"
  shows "gameState (ui (handler sh e w)) \<noteq> Start"
proof (cases e)
  case RevealTimeout
  then show ?thesis
    using assms by (simp add: revealTimeout_not_Start split: list.splits)
qed (use assms in \<open>simp_all add: answered_frame handlePauseResume_def handleHint_def
      hintTimeout_def tick_def split: option.splits\<close>)

lemma step_not_Start:
  "gameState (ui w) \<noteq> Start \<Longrightarrow> gameState (ui (step sh w e)) \<noteq> Start"
  using handler_not_Start [of w sh e] rerender_gameState [of w "handler sh e w"]
  by (auto simp: step_def)

lemma step_Start_isPaused:
  "gameState (ui w) = Start \<Longrightarrow> isPaused (ui (step sh w e)) = isPaused (ui w)"
  by (simp add: step_def rerender_frame handler_isPaused)

lemma start_screen_not_paused:
  "gameState (ui (run sh (initWorld qd ls) es)) = Start \<Longrightarrow>
   \<not> isPaused (ui (run sh (initWorld qd ls) es))"
proof (induction es rule: rev_induct)
  case Nil
  then show ?case by (simp add: run_def initWorld_def initGame_def)
next
  case (snoc e es)
  let ?w = "run sh (initWorld qd ls) es"
  have r: "run sh (initWorld qd ls) (es @ [e]) = step sh ?w e"
    by (simp add: run_def)
  from snoc.prems r have "gameState (ui ?w) = Start"
    using step_not_Start [of ?w sh e] by auto
  with snoc.IH r step_Start_isPaused [of ?w sh e] show ?case by simp
qed

text \<open>
  Nothing but the category selector changes \<open>category\<close>, and nothing changes the keys of
  the bank: the category of a session is empty or one of these keys.
\<close>

lemma handleGameOver_bank:
  "category (ui (handleGameOver e w)) = category (ui w)"
  "questionsData (handleGameOver e w) = questionsData w"
  by (simp_all add: handleGameOver_def isLocalStorageAvailable_def Let_def)

lemma timerEffect_bank:
  "category (ui (timerEffect w)) = category (ui w)"
  "questionsData (timerEffect w) = questionsData w"
  by (simp_all add: timerEffect_def handleGameOver_bank Let_def)

lemma runTimerEffect_bank:
  "category (ui (runTimerEffect w)) = category (ui w) \<and>
   questionsData (runTimerEffect w) = questionsData w"
proof (induction w rule: runTimerEffect.induct)
  case (1 w)
  show ?case
  proof (cases "timerDeps (ui (timerEffect w)) = timerDeps (ui w)")
    case True
    then have "runTimerEffect w = timerEffect w"
      by (subst runTimerEffect_unfold) simp
    then show ?thesis by (simp add: timerEffect_bank)
  next
    case False
    then have "runTimerEffect w = runTimerEffect (timerEffect w)"
      by (subst runTimerEffect_unfold) simp
    with 1 [OF refl False] show ?thesis by (simp add: timerEffect_bank)
  qed
qed

lemma loadLeaderboard_bank:
  "category (ui (loadLeaderboard w)) = category (ui w)"
  "questionsData (loadLeaderboard w) = questionsData w"
  by (simp_all add: loadLeaderboard_def isLocalStorageAvailable_def Let_def
      split: option.splits stored.splits)

lemma rerender_bank:
  "category (ui (rerender p w)) = category (ui w)"
  "questionsData (rerender p w) = questionsData w"
  by (simp_all add: rerender_def Let_def runTimerEffect_bank loadLeaderboard_bank)

lemma answered_bank:
  "category (ui (answered s w)) = category (ui w)"
  "questionsData (answered s w) = questionsData w"
  by (simp_all add: answered_def handleAnswer_def Let_def split: option.splits)

lemma revealTimeout_bank:
  "category (ui (revealTimeout r w)) = category (ui w)"
  "questionsData (revealTimeout r w) = questionsData w"
  by (simp_all add: revealTimeout_def handleGameOver_bank Let_def)

lemma categoryOffered_iff:
  "categoryOffered w c \<longleftrightarrow> c = [] \<or> questionsData w c \<noteq> None"
  by (simp add: categoryOffered_def)

lemma handleStart_offered:
  "categoryOffered w (category (ui w)) \<Longrightarrow>
   categoryOffered (handleStart sh w) (category (ui (handleStart sh w)))"
  by (auto simp: handleStart_def categoryOffered_iff Let_def split: option.splits)

lemma handler_offered:
  assumes "categoryOffered w (category (ui w))"
  shows "categoryOffered (handler sh e w) (category (ui (handler sh e w)))"
proof (cases e)
  case (SetCategory c)
  then show ?thesis using assms by (simp add: categoryOffered_iff)
next
  case ClickStart
  then show ?thesis using assms by (simp add: handleStart_offered)
next
  case RevealTimeout
  then show ?thesis
    using assms by (simp add: categoryOffered_iff revealTimeout_bank split: list.splits)
qed (use assms in \<open>simp_all add: categoryOffered_iff answered_bank handlePauseResume_def
      handleHint_def hintTimeout_def tick_def split: option.splits\<close>)

lemma step_offered:
  assumes "categoryOffered w (category (ui w))"
  shows "categoryOffered (step sh w e) (category (ui (step sh w e)))"
  using handler_offered [OF assms, of sh e] assms
  by (simp add: step_def categoryOffered_iff rerender_bank)

lemma reachable_category_offered:
  "categoryOffered (run sh (initWorld qd ls) es) (category (ui (run sh (initWorld qd ls) es)))"
proof (induction es rule: rev_induct)
  case Nil
  then show ?case by (simp add: run_def initWorld_def initGame_def categoryOffered_iff)
next
  case (snoc e es)
  have "run sh (initWorld qd ls) (es @ [e]) = step sh (run sh (initWorld qd ls) es) e"
    by (simp add: run_def)
  with step_offered [OF snoc.IH, of sh e] show ?case by simp
qed

text \<open>The three ways \<open>handleStart\<close> can go, and what follows the click on the button.\<close>

lemma runTimerEffect_interval:
  "intervalActive (ui w) \<Longrightarrow> runTimerEffect w = w"
  by (subst runTimerEffect_unfold) (simp add: timerEffect_def)

lemma handleStart_validation:
  "userName (ui w) = [] \<or> category (ui w) = [] \<Longrightarrow>
   handleStart sh w = w\<lparr>ui := (ui w)\<lparr>showValidationMessage := True\<rparr>\<rparr>"
  by (auto simp: handleStart_def)

lemma handleStart_unknown_key:
  "userName (ui w) \<noteq> [] \<Longrightarrow> category (ui w) \<noteq> [] \<Longrightarrow>
   questionsData w (category (ui w)) = None \<Longrightarrow> handleStart sh w = w"
  by (simp add: handleStart_def)

lemma handleStart_success:
  assumes "userName (ui w) \<noteq> []" and "category (ui w) \<noteq> []"
    and "questionsData w (category (ui w)) = Some qs"
  shows "handleStart sh w =
           w\<lparr>questionsData := (questionsData w)(category (ui w) \<mapsto> sh qs),
             ui := (ui w)\<lparr>currentQuestions := sh qs, showValidationMessage := False,
                          gameState := Playing, currentQuestionIndex := Some 0, score := 0,
                          selectedOption := None, userAnswer := [], timer := 30\<rparr>\<rparr>"
  using assms by (simp add: handleStart_def Let_def)

lemma step_ClickStart:
  assumes "gameState (ui w) = Start" and "\<not> isPaused (ui w)"
  shows "step sh w ClickStart = handleStart sh w"
proof -
  have nt: "\<not> renderThrows (ui w)" using assms by (simp add: renderThrows_def)
  have s: "step sh w ClickStart = rerender w (handleStart sh w)"
    using assms nt by (simp add: step_def)
  consider (v) "userName (ui w) = [] \<or> category (ui w) = []"
    | (u) "userName (ui w) \<noteq> []" "category (ui w) \<noteq> []" "questionsData w (category (ui w)) = None"
    | (k) qs where "userName (ui w) \<noteq> []" "category (ui w) \<noteq> []"
        "questionsData w (category (ui w)) = Some qs"
    by (cases "questionsData w (category (ui w))") auto
  then show ?thesis
  proof cases
    case v
    then show ?thesis
      using assms by (simp add: s handleStart_validation rerender_def renderThrows_def timerDeps_def)
  next
    case u
    then show ?thesis by (simp add: s handleStart_unknown_key rerender_same)
  next
    case k
    let ?w' = "handleStart sh w"
    have h: "?w' = w\<lparr>questionsData := (questionsData w)(category (ui w) \<mapsto> sh qs),
             ui := (ui w)\<lparr>currentQuestions := sh qs, showValidationMessage := False,
                          gameState := Playing, currentQuestionIndex := Some 0, score := 0,
                          selectedOption := None, userAnswer := [], timer := 30\<rparr>\<rparr>"
      using k by (rule handleStart_success)
    have ia: "intervalActive (ui ?w')" using assms by (simp add: h intervalActive_def)
    have c: "category (ui ?w') = category (ui w)" by (simp add: h)
    show ?thesis
      by (simp add: s rerender_def Let_def c runTimerEffect_interval [OF ia])
  qed
qed

section \<open>What the handlers do in general\<close>

text \<open>
  \<open>handleAnswer\<close> looks at \<open>gameState\<close> and the index only: it schedules a callback
  whatever \<open>selectedOption\<close> is and however many callbacks are pending.
\<close>

lemma answered_schedules:
  assumes "gameState (ui w) = Playing" and "currentQuestionIndex (ui w) = Some i"
    and "i < length (currentQuestions (ui w))"
  shows "answered s w =
           w\<lparr>ui := (ui w)\<lparr>selectedOption := Some s\<rparr>,
             timeouts := timeouts w @
               [\<lparr>correct = (toLowerCase (answer (currentQuestions (ui w) ! i)) = toLowerCase s),
                 index = i, env = ui w\<rparr>]\<rparr>"
  using assms by (simp add: answered_def handleAnswer_def Let_def)

text \<open>
  The callback looks at nothing but its closure: a correct answer adds a point in any
  state and leaves store and leaderboard alone; a wrong one ends the session and keeps
  score and index.
\<close>

lemma revealTimeout_correct:
  assumes "correct r"
  shows "score (ui (revealTimeout r w)) = score (ui w) + 1"
    and "storage (revealTimeout r w) = storage w"
    and "leaderboard (ui (revealTimeout r w)) = leaderboard (ui w)"
    and "timer (ui (revealTimeout r w)) = 30"
  using assms by (simp_all add: revealTimeout_def Let_def)

lemma revealTimeout_last:
  assumes "correct r" and "index r + 1 = length (currentQuestions (env r))"
  shows "gameState (ui (revealTimeout r w)) = Won"
proof -
  from assms(2) have "int (index r) = int (length (currentQuestions (env r))) - 1"
    by linarith
  with assms(1) show ?thesis by (simp add: revealTimeout_def Let_def)
qed

lemma revealTimeout_wrong:
  assumes "\<not> correct r"
  shows "gameState (ui (revealTimeout r w)) = Lost"
    and "score (ui (revealTimeout r w)) = score (ui w)"
    and "currentQuestionIndex (ui (revealTimeout r w)) = currentQuestionIndex (ui w)"
  using assms by (simp_all add: revealTimeout_def handleGameOver_frame Let_def)

text \<open>
  The timer at 0 while playing: the effect runs twice, and the entry of the player is
  added to the stored leaderboard twice.
\<close>

lemma timer_expiry_twice:
  assumes "timer (ui w) = 0" and "gameState (ui w) = Playing" and "available (storage w)"
    and "p = \<lparr>entry_name = userName (ui w), entry_score = score (ui w)\<rparr>"
  shows "gameState (ui (runTimerEffect w)) = Lost"
    and "items (storage (runTimerEffect w)) (leaderboard_key (category (ui w))) =
           Some (Entries (js_sort by_score_desc
                   (js_sort by_score_desc (leaderboard (ui w) @ [p]) @ [p])))"
proof -
  let ?w1 = "timerEffect w"
  have d1: "timerDeps (ui ?w1) \<noteq> timerDeps (ui w)"
    using assms by (simp add: timerEffect_def timerDeps_def intervalActive_def
        handleGameOver_frame Let_def)
  have d2: "timerDeps (ui (timerEffect ?w1)) = timerDeps (ui ?w1)"
    using assms by (simp add: timerEffect_def timerDeps_def intervalActive_def
        handleGameOver_frame Let_def)
  have r: "runTimerEffect w = timerEffect ?w1"
    using d1 d2 by (simp add: runTimerEffect_unfold [of w] runTimerEffect_unfold [of ?w1])
  show "gameState (ui (runTimerEffect w)) = Lost"
    using assms by (simp add: r timerEffect_def intervalActive_def handleGameOver_frame Let_def)
  show "items (storage (runTimerEffect w)) (leaderboard_key (category (ui w))) =
           Some (Entries (js_sort by_score_desc
                   (js_sort by_score_desc (leaderboard (ui w) @ [p]) @ [p])))"
    using assms
    by (simp add: r timerEffect_def intervalActive_def handleGameOver_def
        isLocalStorageAvailable_def Let_def)
qed

text \<open>A successful start writes the shuffled list into the bank.\<close>

lemma handleStart_writes_bank:
  assumes "userName (ui w) \<noteq> []" and "category (ui w) \<noteq> []"
    and "questionsData w (category (ui w)) = Some qs"
  shows "questionsData (handleStart sh w) (category (ui w)) = Some (sh qs)"
  using assms by (simp add: handleStart_def Let_def)

section \<open>The claims\<close>

subsection \<open>C1: the score of a won session\<close>

text \<open>
  C1 says that a session that reaches \<open>won\<close> has a score equal to the number of its
  questions. The session below runs on a bank of two text questions. \<open>Submit\<close> is
  clicked twice during the second of delay that follows the first answer; both
  callbacks fire, each adds a point (line 96), and after the correct answer to the
  second question the session is \<open>won\<close> with score 3.
\<close>

theorem double_submit_won_score:
  "(let g = ui (run keep_order (initWorld text_bank empty_store)
                 (begin_session @
                  [TypeAnswer ''sun'', ClickSubmit, ClickSubmit, RevealTimeout, RevealTimeout,
                   TypeAnswer ''mars'', ClickSubmit, RevealTimeout]))
    in gameState g = Won \<and> score g = 3 \<and> length (currentQuestions g) = 2)"
  by code_simp

subsection \<open>C2: the score of a lost session\<close>

text \<open>
  C2 says that a session that reaches \<open>lost\<close> has a score equal to the index of the
  question it failed on. After the same double submission on the first question, a
  wrong answer to the second question ends the session with score 2 at index 1.
\<close>

theorem double_submit_lost_score:
  "(let g = ui (run keep_order (initWorld text_bank empty_store)
                 (begin_session @
                  [TypeAnswer ''sun'', ClickSubmit, ClickSubmit, RevealTimeout, RevealTimeout,
                   TypeAnswer ''venus'', ClickSubmit, RevealTimeout]))
    in gameState g = Lost \<and> score g = 2 \<and> currentQuestionIndex g = Some 1)"
  by code_simp

subsection \<open>C3: terminal states\<close>

text \<open>
  C3 says that nothing changes score, index or timer once the state is \<open>won\<close> or
  \<open>lost\<close>. Below, the only question is answered correctly when one second is left; the
  interval fires first and the session is \<open>lost\<close> with score 0 and timer 0. The callback
  of the answer is still pending: when it fires, the score is 1, the timer 30 and the
  state \<open>won\<close>.
\<close>

theorem pending_reveal_after_lost:
  "(let lost = run keep_order (initWorld mcq_bank empty_store)
                 (begin_session @ replicate 29 Tick @ [ClickOption ''Moon'', Tick]);
        later = step keep_order lost RevealTimeout
    in gameState (ui lost) = Lost \<and> score (ui lost) = 0 \<and> timer (ui lost) = 0 \<and>
       gameState (ui later) = Won \<and> score (ui later) = 1 \<and> timer (ui later) = 30)"
  by code_simp

subsection \<open>C4: the leaderboard entry of a finished session\<close>

text \<open>
  C4 says that on reaching \<open>won\<close> or \<open>lost\<close> the entry of the player is appended to the
  leaderboard and persisted. The branch that sets \<open>won\<close> (lines 98-99) does not call
  \<open>handleGameOver\<close>: after the session below is won, the leaderboard is empty and the
  store has no value for the category.
\<close>

theorem won_session_not_persisted:
  "(let w = run keep_order (initWorld mcq_bank empty_store)
              (begin_session @ [ClickOption ''Moon'', RevealTimeout])
    in gameState (ui w) = Won \<and> score (ui w) = 1 \<and> leaderboard (ui w) = [] \<and>
       items (storage w) (leaderboard_key ''science'') = None)"
  by code_simp

subsection \<open>C5: one entry for one game over\<close>

text \<open>
  C5 says that the countdown reaching 0 is persisted once. The timer effect sets
  \<open>gameState\<close>, which is one of its own dependencies, so it runs again with the timer
  still at 0 and calls \<open>handleGameOver\<close> a second time: after thirty ticks the store
  holds two entries of the player.
\<close>

theorem timeout_persisted_twice:
  "(let w = run keep_order (initWorld mcq_bank empty_store) (begin_session @ replicate 30 Tick)
    in gameState (ui w) = Lost \<and>
       items (storage w) (leaderboard_key ''science'') =
         Some (Entries [\<lparr>entry_name = ''bob'', entry_score = 0\<rparr>,
                        \<lparr>entry_name = ''bob'', entry_score = 0\<rparr>]))"
  by code_simp

subsection \<open>C6: starting a session\<close>

text \<open>
  C6: on every start screen that a sequence of events leads to, starting with an empty
  name, or with a category that is empty or not a key of the bank, shows the validation
  message and changes nothing else, so the state stays \<open>start\<close> and no questions, score
  or timer are set; starting with a name and a category of the bank gives the state
  \<open>playing\<close> on the shuffled questions with index 0, score 0, timer 30 and
  \<open>isPaused\<close> false. The click on the button does what \<open>handleStart\<close> does, the effects
  that follow it change nothing.
\<close>

theorem start_on_start_screen:
  assumes "w = run sh (initWorld qd ls) es" and "gameState (ui w) = Start"
  shows "step sh w ClickStart = handleStart sh w \<and>
         (userName (ui w) = [] \<or> category (ui w) = [] \<or>
          questionsData w (category (ui w)) = None \<longrightarrow>
            handleStart sh w = w\<lparr>ui := (ui w)\<lparr>showValidationMessage := True\<rparr>\<rparr>) \<and>
         (userName (ui w) \<noteq> [] \<and> category (ui w) \<noteq> [] \<and>
          questionsData w (category (ui w)) = Some qs \<longrightarrow>
            gameState (ui (handleStart sh w)) = Playing \<and>
            currentQuestions (ui (handleStart sh w)) = sh qs \<and>
            currentQuestionIndex (ui (handleStart sh w)) = Some 0 \<and>
            score (ui (handleStart sh w)) = 0 \<and>
            timer (ui (handleStart sh w)) = 30 \<and>
            \<not> isPaused (ui (handleStart sh w)))"
proof (intro conjI impI)
  have np: "\<not> isPaused (ui w)"
    using assms start_screen_not_paused [of sh qd ls es] by simp
  from assms(2) np show "step sh w ClickStart = handleStart sh w"
    by (rule step_ClickStart)
  have off: "categoryOffered w (category (ui w))"
    using assms(1) reachable_category_offered [of sh qd ls es] by simp
  {
    assume "userName (ui w) = [] \<or> category (ui w) = [] \<or>
            questionsData w (category (ui w)) = None"
    with off have "userName (ui w) = [] \<or> category (ui w) = []"
      by (auto simp: categoryOffered_iff)
    then show "handleStart sh w = w\<lparr>ui := (ui w)\<lparr>showValidationMessage := True\<rparr>\<rparr>"
      by (rule handleStart_validation)
  }
  {
    assume "userName (ui w) \<noteq> [] \<and> category (ui w) \<noteq> [] \<and>
            questionsData w (category (ui w)) = Some qs"
    then have h: "handleStart sh w =
           w\<lparr>questionsData := (questionsData w)(category (ui w) \<mapsto> sh qs),
             ui := (ui w)\<lparr>currentQuestions := sh qs, showValidationMessage := False,
                          gameState := Playing, currentQuestionIndex := Some 0, score := 0,
                          selectedOption := None, userAnswer := [], timer := 30\<rparr>\<rparr>"
      by (simp add: handleStart_success)
    show "gameState (ui (handleStart sh w)) = Playing" by (simp add: h)
    show "currentQuestions (ui (handleStart sh w)) = sh qs" by (simp add: h)
    show "currentQuestionIndex (ui (handleStart sh w)) = Some 0" by (simp add: h)
    show "score (ui (handleStart sh w)) = 0" by (simp add: h)
    show "timer (ui (handleStart sh w)) = 30" by (simp add: h)
    show "\<not> isPaused (ui (handleStart sh w))" using np by (simp add: h)
  }
qed

theorem start_on_start_screen_witness:
  "userName (ui nameless_screen) = [] \<and>
   showValidationMessage (ui (step keep_order nameless_screen ClickStart)) \<and>
   gameState (ui (step keep_order nameless_screen ClickStart)) = Start \<and>
   currentQuestionIndex (ui (step keep_order nameless_screen ClickStart)) = None \<and>
   questionsData uncategorised_screen (category (ui uncategorised_screen)) = None \<and>
   showValidationMessage (ui (step keep_order uncategorised_screen ClickStart)) \<and>
   gameState (ui (step keep_order uncategorised_screen ClickStart)) = Start \<and>
   currentQuestionIndex (ui (step keep_order uncategorised_screen ClickStart)) = None \<and>
   gameState (ui (step keep_order ready_screen ClickStart)) = Playing \<and>
   currentQuestions (ui (step keep_order ready_screen ClickStart)) =
     [sun_question, mars_question] \<and>
   currentQuestionIndex (ui (step keep_order ready_screen ClickStart)) = Some 0 \<and>
   score (ui (step keep_order ready_screen ClickStart)) = 0 \<and>
   timer (ui (step keep_order ready_screen ClickStart)) = 30 \<and>
   \<not> isPaused (ui (step keep_order ready_screen ClickStart))"
proof -
  have n1: "gameState (ui nameless_screen) = Start" by code_simp
  have n2: "userName (ui nameless_screen) = []" by code_simp
  have n3: "currentQuestionIndex (ui nameless_screen) = None" by code_simp
  have u1: "gameState (ui uncategorised_screen) = Start" by code_simp
  have u2: "questionsData uncategorised_screen (category (ui uncategorised_screen)) = None"
    by code_simp
  have u3: "currentQuestionIndex (ui uncategorised_screen) = None" by code_simp
  have r1: "gameState (ui ready_screen) = Start" by code_simp
  have r2: "userName (ui ready_screen) \<noteq> []" by code_simp
  have r3: "category (ui ready_screen) \<noteq> []" by code_simp
  have r4: "questionsData ready_screen (category (ui ready_screen)) =
              Some [sun_question, mars_question]"
    by code_simp
  show ?thesis
    using start_on_start_screen [OF nameless_screen_def n1, of "[]"]
      start_on_start_screen [OF uncategorised_screen_def u1, of "[]"]
      start_on_start_screen [OF ready_screen_def r1, of "[sun_question, mars_question]"]
      n1 n2 n3 u1 u2 u3 r2 r3 r4
    by (simp add: keep_order_def)
qed

subsection \<open>C7: a second answer during the reveal\<close>

text \<open>
  C7 says that a second submission for the same question, made before the first one
  has taken effect, changes neither score nor index. The option buttons are disabled
  once one is selected (line 254), the \<open>Submit\<close> button of the text questions is not
  (lines 271-276), and \<open>handleAnswer\<close> does not look at \<open>selectedOption\<close>. Submitting
  \<open>sun\<close> and then \<open>SUN\<close> for the first question gives score 2 at index 1, where one
  submission gives score 1.
\<close>

theorem second_submit_counts:
  "(let once = run keep_order (initWorld text_bank empty_store)
                 (begin_session @ [TypeAnswer ''sun'', ClickSubmit, RevealTimeout]);
        twice = run keep_order (initWorld text_bank empty_store)
                  (begin_session @
                   [TypeAnswer ''sun'', ClickSubmit, TypeAnswer ''SUN'', ClickSubmit,
                    RevealTimeout, RevealTimeout])
    in score (ui once) = 1 \<and> currentQuestionIndex (ui once) = Some 1 \<and>
       score (ui twice) = 2 \<and> currentQuestionIndex (ui twice) = Some 1)"
  by code_simp

subsection \<open>C8: pause and resume\<close>

text \<open>
  C8 says that pausing a paused session leaves it paused. The component has one
  handler for the button, which negates \<open>isPaused\<close>: a second click resumes.
\<close>

theorem second_pause_click_resumes:
  "isPaused (ui (run keep_order (initWorld mcq_bank empty_store)
                   (begin_session @ [ClickPauseResume]))) \<and>
   \<not> isPaused (ui (run keep_order (initWorld mcq_bank empty_store)
                     (begin_session @ [ClickPauseResume, ClickPauseResume])))"
  by code_simp

text \<open>
  C8, as the code has it. \<open>handlePauseResume\<close> negates \<open>isPaused\<close>, so two calls give
  the world back; a click on the button, with the effects that follow it, changes
  neither score nor index nor timer; and while \<open>isPaused\<close> holds a tick of the
  countdown changes nothing.
\<close>

theorem handlePauseResume_toggle:
  "isPaused (ui (handlePauseResume w)) = (\<not> isPaused (ui w)) \<and>
   handlePauseResume (handlePauseResume w) = w \<and>
   score (ui (step sh w ClickPauseResume)) = score (ui w) \<and>
   currentQuestionIndex (ui (step sh w ClickPauseResume)) = currentQuestionIndex (ui w) \<and>
   timer (ui (step sh w ClickPauseResume)) = timer (ui w) \<and>
   (isPaused (ui w) \<longrightarrow> step sh w Tick = w)"
proof (intro conjI impI)
  show "isPaused (ui (handlePauseResume w)) = (\<not> isPaused (ui w))"
    by (simp add: handlePauseResume_def)
  show "handlePauseResume (handlePauseResume w) = w"
    by (simp add: handlePauseResume_def)
  have h: "score (ui (handler sh ClickPauseResume w)) = score (ui w) \<and>
           currentQuestionIndex (ui (handler sh ClickPauseResume w)) =
             currentQuestionIndex (ui w) \<and>
           timer (ui (handler sh ClickPauseResume w)) = timer (ui w)"
    by (simp add: handlePauseResume_def)
  from h show "score (ui (step sh w ClickPauseResume)) = score (ui w)"
    by (simp add: step_def rerender_frame)
  from h show "currentQuestionIndex (ui (step sh w ClickPauseResume)) =
               currentQuestionIndex (ui w)"
    by (simp add: step_def rerender_frame)
  from h show "timer (ui (step sh w ClickPauseResume)) = timer (ui w)"
    by (simp add: step_def rerender_frame)
next
  assume "isPaused (ui w)"
  then have "handler sh Tick w = w" by (simp add: intervalActive_def)
  then show "step sh w Tick = w" by (simp add: step_def rerender_same)
qed

theorem handlePauseResume_toggle_witness:
  "isPaused (ui paused_world) \<and> timer (ui paused_world) = 29 \<and>
   step keep_order paused_world Tick = paused_world \<and>
   \<not> isPaused (ui (handlePauseResume paused_world)) \<and>
   timer (ui (step keep_order paused_world ClickPauseResume)) = 29"
proof -
  have p: "isPaused (ui paused_world)" by code_simp
  have t: "timer (ui paused_world) = 29" by code_simp
  show ?thesis
    using handlePauseResume_toggle [of paused_world keep_order] p t by simp
qed

subsection \<open>C9: saving and loading the leaderboard\<close>

text \<open>
  C9: what is saved at a game over is read back sorted by descending score, entries of
  equal score in the order they had. \<open>handleGameOver\<close> saves the leaderboard of its
  render with the entry of the player appended (\<open>entries\<close>); the effect of lines 50-70
  reads the value back (\<open>loaded\<close>) in any world \<open>w'\<close> that has the store as the save
  left it, a later visit of the page for one. The store has to be available and the
  category one of the bank, as it is in every session.
\<close>

theorem leaderboard_round_trip:
  assumes "available (storage w)"
    and "storage w' = storage (handleGameOver e w)"
    and "category (ui w') = category e"
    and "category e \<noteq> []" and "questionsData w' (category e) \<noteq> None"
    and "entries = leaderboard e @ [\<lparr>entry_name = userName e, entry_score = score e\<rparr>]"
    and "loaded = leaderboard (ui (loadLeaderboard w'))"
  shows "sorted_wrt (\<lambda>a b. entry_score b \<le> entry_score a) loaded \<and>
         mset loaded = mset entries \<and>
         (\<forall>k. filter (\<lambda>x. entry_score x = k) loaded =
              filter (\<lambda>x. entry_score x = k) entries)"
proof -
  have "loaded = js_sort by_score_desc entries"
    using assms
    by (simp add: loadLeaderboard_def handleGameOver_def isLocalStorageAvailable_def
        leaderboard_key_def Let_def)
  then show ?thesis
    by (simp add: js_sort_descending js_sort_mset js_sort_stable)
qed

theorem leaderboard_round_trip_witness:
  "leaderboard (ui (loadLeaderboard reloaded_world)) =
     [\<lparr>entry_name = ''bob'', entry_score = 3\<rparr>, \<lparr>entry_name = ''ann'', entry_score = 1\<rparr>,
      \<lparr>entry_name = ''cat'', entry_score = 1\<rparr>] \<and>
   sorted_wrt (\<lambda>a b. entry_score b \<le> entry_score a)
     (leaderboard (ui (loadLeaderboard reloaded_world))) \<and>
   filter (\<lambda>x. entry_score x = 1) (leaderboard (ui (loadLeaderboard reloaded_world))) =
     [\<lparr>entry_name = ''ann'', entry_score = 1\<rparr>, \<lparr>entry_name = ''cat'', entry_score = 1\<rparr>]"
proof -
  have l: "leaderboard (ui (loadLeaderboard reloaded_world)) =
     [\<lparr>entry_name = ''bob'', entry_score = 3\<rparr>, \<lparr>entry_name = ''ann'', entry_score = 1\<rparr>,
      \<lparr>entry_name = ''cat'', entry_score = 1\<rparr>]"
    by code_simp
  have a: "available (storage board_world)" by code_simp
  have s: "storage reloaded_world = storage (handleGameOver board_game board_world)"
    by (simp add: reloaded_world_def initWorld_def)
  have c: "category (ui reloaded_world) = category board_game" by code_simp
  have n: "category board_game \<noteq> []" by code_simp
  have q: "questionsData reloaded_world (category board_game) \<noteq> None" by code_simp
  have b: "leaderboard board_game @
             [\<lparr>entry_name = userName board_game, entry_score = score board_game\<rparr>] =
           [\<lparr>entry_name = ''ann'', entry_score = 1\<rparr>, \<lparr>entry_name = ''bob'', entry_score = 3\<rparr>,
            \<lparr>entry_name = ''cat'', entry_score = 1\<rparr>]"
    by (simp add: board_game_def initGame_def)
  from leaderboard_round_trip [OF a s c n q b [symmetric] refl] l show ?thesis
    by simp
qed

subsection \<open>C10: the question bank\<close>

text \<open>
  C10 says that starting a session leaves the list of the bank as it was. \<open>handleStart\<close>
  calls \<open>sort\<close> on the array of the bank itself (line 120), not on a copy of it as
  \<open>handleGameOver\<close> does with the leaderboard (line 148). When the random comparator
  happens to reverse the two questions, the bank holds them reversed after the start.
\<close>

theorem start_reorders_bank:
  "(let w = initWorld text_bank empty_store;
        w' = run rev w begin_session
    in questionsData w ''science'' = Some [sun_question, mars_question] \<and>
       questionsData w' ''science'' = Some [mars_question, sun_question] \<and>
       gameState (ui w') = Playing)"
  by code_simp

end
